theory Spec2Isabelle
  imports Complex_Main
begin

section \<open>JavaScript values used by the connector\<close>

text \<open>
  A JavaScript number is NaN, an infinity or a finite value. The connector only compares
  numbers with \<^verbatim>\<open>===\<close> and \<^verbatim>\<open>!==\<close> and tests them for truthiness; it does no arithmetic.
  Both zeros are \<open>Num 0\<close>: \<^verbatim>\<open>===\<close> and truthiness do not tell them apart.
\<close>

datatype number = NaN | PosInfinity | NegInfinity | Num real

text \<open>\<^verbatim>\<open>a === b\<close> on numbers: NaN is equal to nothing, itself included.\<close>

definition strict_eq :: "number \<Rightarrow> number \<Rightarrow> bool" where
  "strict_eq a b = (a \<noteq> NaN \<and> b \<noteq> NaN \<and> a = b)"

text \<open>
  The values whose truthiness the connector tests. \<open>JObject\<close> stands for any object:
  an array, a chain descriptor, the Torus instance, a promise.
\<close>

datatype jsval =
    JUndefined
  | JNull
  | JBoolean bool
  | JNumber number
  | JString string
  | JObject

fun ToBoolean :: "jsval \<Rightarrow> bool" where
  "ToBoolean JUndefined = False"
| "ToBoolean JNull = False"
| "ToBoolean (JBoolean b) = b"
| "ToBoolean (JNumber n) = (n \<noteq> NaN \<and> n \<noteq> Num 0)"
| "ToBoolean (JString s) = (s \<noteq> [])"
| "ToBoolean JObject = True"

text \<open>An optional number (\<^verbatim>\<open>chainId?: number\<close>) is \<^verbatim>\<open>undefined\<close> when absent.\<close>

fun js_number :: "number option \<Rightarrow> jsval" where
  "js_number None = JUndefined"
| "js_number (Some n) = JNumber n"

text \<open>A string that may be \<^verbatim>\<open>null\<close> at run time (an entry of an account list).\<close>

fun js_string :: "string option \<Rightarrow> jsval" where
  "js_string None = JNull"
| "js_string (Some s) = JString s"

text \<open>An array that may be \<^verbatim>\<open>null\<close> at run time (the raw \<^verbatim>\<open>eth_accounts\<close> response).\<close>

fun js_array :: "'a list option \<Rightarrow> jsval" where
  "js_array None = JNull"
| "js_array (Some xs) = JObject"

text \<open>An object reference that may be \<^verbatim>\<open>undefined\<close> (the provider of a Torus instance).\<close>

fun js_object :: "'a option \<Rightarrow> jsval" where
  "js_object None = JUndefined"
| "js_object (Some x) = JObject"

text \<open>
  The value of a call to an \<^verbatim>\<open>async\<close> function that is not awaited: a promise object. It
  carries what it stands for, the suspended call or the outcome the call settles with.
\<close>

datatype 'a promise = Promise 'a

fun js_promise :: "'a promise \<Rightarrow> jsval" where
  "js_promise (Promise r) = JObject"

section \<open>Data model\<close>

type_synonym address = string

datatype error =
    Error string
  | TypeError string
  | SwitchChainError error
  | InvalidAddressError string
  | SdkError string

record currency =
  currency_name :: string
  currency_symbol :: string

text \<open>The fields of viem's \<^verbatim>\<open>Chain\<close> that the connector reads.\<close>

record chain =
  chain_id :: number
  chain_name :: string
  nativeCurrency :: "currency option"
  blockExplorers_default_url :: "string option"
  rpcUrls_default_http :: "string list"

record network_descriptor =
  host :: string
  chainId :: number
  networkName :: string
  tickerName :: "string option"
  ticker :: "string option"
  blockExplorer :: string

record torus_params =
  showTorusButton :: "bool option"

record options =
  opt_host :: string
  opt_chainId :: "number option"
  opt_buttonPosition :: "string option"
  opt_apiKey :: "string option"
  opt_buttonSize :: "number option"
  TorusParams :: "torus_params option"

record ctor_args =
  buttonPosition :: string
  modalZIndex :: number
  apiKey :: "string option"
  buttonSize :: "number option"

record init_params =
  init_TorusParams :: "torus_params option"
  init_network :: "network_descriptor option"

record setProvider_args =
  sp_host :: string
  sp_chainId :: number
  sp_networkName :: string

datatype handler = OnAccountsChanged | OnChainChanged

datatype event =
    Disconnect
  | Change_accounts "address list"
  | Change_chainId number
  | Connect "address list" number

datatype log_entry =
    Warn_chainId_not_found number
  | Info_chainId string
  | Info_chainChanged number bool
  | Error_cannot_change_chain error

text \<open>
  The external collaborators, taken as parameters: the Torus SDK (its constructor, the
  members of an instance \<open>'i\<close> and of its provider \<open>'p\<close>, all acting on the SDK's own
  state \<open>'s\<close>), the conversion \<^verbatim>\<open>Number(string)\<close> and viem's \<^verbatim>\<open>getAddress\<close>. A call that can
  reject or throw returns the error beside the state it leaves.

  A call of the SDK is decided, and acts on the SDK's state, where it is made. Only
  \<^verbatim>\<open>init\<close> has two steps, the call (\<open>torus_init_begin\<close>) and the settlement of its promise
  (\<open>torus_init_end\<close>): \<^verbatim>\<open>switchChain\<close> and \<^verbatim>\<open>connect\<close> make other calls while an \<^verbatim>\<open>init\<close> is
  pending. When both lookups of the \<^verbatim>\<open>Promise.all\<close> in \<^verbatim>\<open>connect\<close> reject, the SDK decides
  which of the two rejects first (\<open>eth_accounts_rejects_first\<close>).
\<close>

record ('i, 'p, 's) env =
  new_Torus :: "ctor_args \<Rightarrow> 's \<Rightarrow> (error + 'i) \<times> 's"
  torus_isInitialized :: "'i \<Rightarrow> 's \<Rightarrow> bool"
  torus_isLoggedIn :: "'i \<Rightarrow> 's \<Rightarrow> bool"
  torus_provider :: "'i \<Rightarrow> 's \<Rightarrow> 'p option"
  torus_init_begin :: "'i \<Rightarrow> init_params \<Rightarrow> 's \<Rightarrow> 's"
  torus_init_end :: "'i \<Rightarrow> init_params \<Rightarrow> 's \<Rightarrow> error option \<times> 's"
  torus_login :: "'i \<Rightarrow> 's \<Rightarrow> error option \<times> 's"
  torus_logout :: "'i \<Rightarrow> 's \<Rightarrow> error option \<times> 's"
  torus_showTorusButton :: "'i \<Rightarrow> 's \<Rightarrow> error option \<times> 's"
  torus_setProvider :: "'i \<Rightarrow> setProvider_args \<Rightarrow> 's \<Rightarrow> error option \<times> 's"
  request_eth_accounts :: "'p \<Rightarrow> 's \<Rightarrow> (error + string option list option) \<times> 's"
  request_eth_chainId :: "'p \<Rightarrow> 's \<Rightarrow> (error + string) \<times> 's"
  provider_on :: "'p \<Rightarrow> string \<Rightarrow> handler \<Rightarrow> 's \<Rightarrow> 's"
  eth_accounts_rejects_first :: "'s \<Rightarrow> bool"
  Number :: "string \<Rightarrow> number"
  getAddress :: "string \<Rightarrow> error + address"

text \<open>\<^verbatim>\<open>await torusInstance.init(...)\<close>: the call and its settlement, with nothing between.\<close>

definition torus_init ::
  "('i, 'p, 's) env \<Rightarrow> 'i \<Rightarrow> init_params \<Rightarrow> 's \<Rightarrow> error option \<times> 's"
where
  "torus_init env t params s = torus_init_end env t params (torus_init_begin env t params s)"

text \<open>
  The connector's closure variables \<^verbatim>\<open>__torus\<close> and \<^verbatim>\<open>network\<close>, the SDK's state, and
  what was sent to \<^verbatim>\<open>config.emitter\<close> and to the logger, oldest first.
\<close>

record ('i, 's) world =
  torus :: "'i option"
  network :: "network_descriptor option"
  sdk :: 's
  emitted :: "event list"
  logged :: "log_entry list"

definition emit :: "event \<Rightarrow> ('i, 's) world \<Rightarrow> ('i, 's) world" where
  "emit ev w = w\<lparr>emitted := emitted w @ [ev]\<rparr>"

definition log_entry :: "log_entry \<Rightarrow> ('i, 's) world \<Rightarrow> ('i, 's) world" where
  "log_entry l w = w\<lparr>logged := logged w @ [l]\<rparr>"

section \<open>The connector\<close>

text \<open>
  The methods of the connector are \<^verbatim>\<open>async\<close> functions. A method is modelled by the outcome
  its promise settles with, \<open>Inr\<close> for a value and \<open>Inl\<close> for a rejection, beside the world
  it leaves; an awaited call runs to its end at the place of the \<^verbatim>\<open>await\<close>. A call that
  is not awaited where it is made (\<^verbatim>\<open>this.isAuthorized()\<close> in \<^verbatim>\<open>switchChain\<close>, the two
  lookups of the \<^verbatim>\<open>Promise.all\<close> in \<^verbatim>\<open>connect\<close>) runs at the call up to its first suspension
  only; the caller goes on, and the rest of the call runs when it is resumed, after the
  calls the caller makes before it suspends itself. The chain list and the options are
  the arguments of \<^verbatim>\<open>torusConnector\<close>.
\<close>

definition isChainUnsupported :: "chain list \<Rightarrow> number \<Rightarrow> bool" where
  "isChainUnsupported chainList c = (\<not> list_ex (\<lambda>x. strict_eq (chain_id x) c) chainList)"

definition getTorus :: "('i, 's) world \<Rightarrow> error + 'i" where
  "getTorus w =
     (case torus w of
        None \<Rightarrow> Inl (Error ''Torus instance not initialized'')
      | Some t \<Rightarrow> Inr t)"

definition setup_connector ::
  "('i, 'p, 's) env \<Rightarrow> chain list \<Rightarrow> options \<Rightarrow> ('i, 's) world \<Rightarrow> error option \<times> ('i, 's) world"
where
  "setup_connector env chainList opts w =
     (let c = (if ToBoolean (js_number (opt_chainId opts)) then the (opt_chainId opts) else Num 1);
          h = (if ToBoolean (JString (opt_host opts)) then opt_host opts else ''mainnet'');
          args = \<lparr>buttonPosition =
                    (if ToBoolean (js_string (opt_buttonPosition opts))
                     then the (opt_buttonPosition opts) else ''bottom-left''),
                  modalZIndex = Num 9999999999999,
                  apiKey = opt_apiKey opts,
                  buttonSize = opt_buttonSize opts\<rparr>
      in case new_Torus env args (sdk w) of
           (Inl e, s1) \<Rightarrow> (Some e, w\<lparr>sdk := s1\<rparr>)
         | (Inr t, s1) \<Rightarrow>
             (let w1 = w\<lparr>torus := Some t, sdk := s1\<rparr>
              in case find (\<lambda>x. strict_eq (chain_id x) c) chainList of
                   Some ch \<Rightarrow>
                     (None, w1\<lparr>network := Some
                        \<lparr>host = h,
                         chainId = c,
                         networkName = chain_name ch,
                         tickerName = map_option currency_name (nativeCurrency ch),
                         ticker = map_option currency_symbol (nativeCurrency ch),
                         blockExplorer =
                           (if ToBoolean (js_string (blockExplorers_default_url ch))
                            then the (blockExplorers_default_url ch) else '''')\<rparr>\<rparr>)
                 | None \<Rightarrow> (None, log_entry (Warn_chainId_not_found c) w1)))"

text \<open>\<^verbatim>\<open>options.TorusParams?.showTorusButton !== false\<close>\<close>

definition showTorusButton_wanted :: "options \<Rightarrow> bool" where
  "showTorusButton_wanted opts =
     (case TorusParams opts of
        None \<Rightarrow> True
      | Some p \<Rightarrow> showTorusButton p \<noteq> Some False)"

definition getProvider ::
  "('i, 'p, 's) env \<Rightarrow> options \<Rightarrow> ('i, 's) world \<Rightarrow> (error + 'p option) \<times> ('i, 's) world"
where
  "getProvider env opts w =
     (case getTorus w of
        Inl e \<Rightarrow> (Inl e, w)
      | Inr torusInstance \<Rightarrow>
          (case (if \<not> torus_isInitialized env torusInstance (sdk w)
                 then torus_init env torusInstance
                        \<lparr>init_TorusParams = TorusParams opts, init_network = network w\<rparr> (sdk w)
                 else (None, sdk w)) of
             (Some e, s1) \<Rightarrow> (Inl e, w\<lparr>sdk := s1\<rparr>)
           | (None, s1) \<Rightarrow>
               (case (if showTorusButton_wanted opts
                      then torus_showTorusButton env torusInstance s1
                      else (None, s1)) of
                  (Some e, s2) \<Rightarrow> (Inl e, w\<lparr>sdk := s2\<rparr>)
                | (None, s2) \<Rightarrow> (Inr (torus_provider env torusInstance s2), w\<lparr>sdk := s2\<rparr>))))"

text \<open>
  \<^verbatim>\<open>getProvider\<close> in two parts, for a call that is not awaited at once. The first part
  runs at the call: without an instance, or with an initialized one, \<^verbatim>\<open>getProvider\<close> has no
  suspension and returns; otherwise it calls \<^verbatim>\<open>init\<close> and is suspended at that \<^verbatim>\<open>await\<close>,
  with the \<^verbatim>\<open>init\<close> pending. The second part runs when the call is resumed.
\<close>

datatype ('i, 'p) suspended =
    Awaiting_init 'i init_params
  | Returned "error + 'p option"

definition getProvider_start ::
  "('i, 'p, 's) env \<Rightarrow> options \<Rightarrow> ('i, 's) world \<Rightarrow> ('i, 'p) suspended \<times> ('i, 's) world"
where
  "getProvider_start env opts w =
     (case getTorus w of
        Inl e \<Rightarrow> (Returned (Inl e), w)
      | Inr torusInstance \<Rightarrow>
          (if \<not> torus_isInitialized env torusInstance (sdk w)
           then (let params = \<lparr>init_TorusParams = TorusParams opts, init_network = network w\<rparr>
                 in (Awaiting_init torusInstance params,
                     w\<lparr>sdk := torus_init_begin env torusInstance params (sdk w)\<rparr>))
           else (case (if showTorusButton_wanted opts
                       then torus_showTorusButton env torusInstance (sdk w)
                       else (None, sdk w)) of
                   (Some e, s2) \<Rightarrow> (Returned (Inl e), w\<lparr>sdk := s2\<rparr>)
                 | (None, s2) \<Rightarrow>
                     (Returned (Inr (torus_provider env torusInstance s2)), w\<lparr>sdk := s2\<rparr>))))"

definition getProvider_resume ::
  "('i, 'p, 's) env \<Rightarrow> options \<Rightarrow> ('i, 'p) suspended \<Rightarrow> ('i, 's) world
     \<Rightarrow> (error + 'p option) \<times> ('i, 's) world"
where
  "getProvider_resume env opts pending w =
     (case pending of
        Returned r \<Rightarrow> (r, w)
      | Awaiting_init torusInstance params \<Rightarrow>
          (case torus_init_end env torusInstance params (sdk w) of
             (Some e, s1) \<Rightarrow> (Inl e, w\<lparr>sdk := s1\<rparr>)
           | (None, s1) \<Rightarrow>
               (case (if showTorusButton_wanted opts
                      then torus_showTorusButton env torusInstance s1
                      else (None, s1)) of
                  (Some e, s2) \<Rightarrow> (Inl e, w\<lparr>sdk := s2\<rparr>)
                | (None, s2) \<Rightarrow> (Inr (torus_provider env torusInstance s2), w\<lparr>sdk := s2\<rparr>))))"

text \<open>
  The \<^verbatim>\<open>reduce\<close> of \<^verbatim>\<open>getAccounts\<close>: the accumulator receives the checksum form of every
  truthy entry; an exception of \<^verbatim>\<open>getAddress\<close> ends the whole fold.
\<close>

fun reduce_accounts ::
  "(string \<Rightarrow> error + address) \<Rightarrow> address list \<Rightarrow> string option list \<Rightarrow> error + address list"
where
  "reduce_accounts f acc [] = Inr acc"
| "reduce_accounts f acc (a # as) =
     (if ToBoolean (js_string a)
      then (case f (the a) of
              Inl e \<Rightarrow> Inl e
            | Inr c \<Rightarrow> reduce_accounts f (acc @ [c]) as)
      else reduce_accounts f acc as)"

text \<open>The body of \<^verbatim>\<open>getAccounts\<close> after the request: from the raw response to the result.\<close>

definition accounts_of_raw ::
  "(string \<Rightarrow> error + address) \<Rightarrow> string option list option \<Rightarrow> error + address list"
where
  "accounts_of_raw f raw =
     (if \<not> ToBoolean (js_array raw) \<or> length (the raw) = 0
      then Inr []
      else reduce_accounts f [] (the raw))"

definition getAccounts ::
  "('i, 'p, 's) env \<Rightarrow> options \<Rightarrow> ('i, 's) world \<Rightarrow> (error + address list) \<times> ('i, 's) world"
where
  "getAccounts env opts w =
     (case getProvider env opts w of
        (Inl e, w1) \<Rightarrow> (Inl e, w1)
      | (Inr None, w1) \<Rightarrow>
          (Inl (TypeError ''Cannot read properties of undefined (reading 'request')''), w1)
      | (Inr (Some p), w1) \<Rightarrow>
          (case request_eth_accounts env p (sdk w1) of
             (Inl e, s2) \<Rightarrow> (Inl e, w1\<lparr>sdk := s2\<rparr>)
           | (Inr raw, s2) \<Rightarrow> (accounts_of_raw (getAddress env) raw, w1\<lparr>sdk := s2\<rparr>)))"

definition getChainId ::
  "('i, 'p, 's) env \<Rightarrow> options \<Rightarrow> ('i, 's) world \<Rightarrow> (error + number) \<times> ('i, 's) world"
where
  "getChainId env opts w =
     (case getProvider env opts w of
        (Inl e, w1) \<Rightarrow> (Inl e, w1)
      | (Inr None, w1) \<Rightarrow>
          (Inl (TypeError ''Cannot read properties of undefined (reading 'request')''), w1)
      | (Inr (Some p), w1) \<Rightarrow>
          (case request_eth_chainId env p (sdk w1) of
             (Inl e, s2) \<Rightarrow> (Inl e, w1\<lparr>sdk := s2\<rparr>)
           | (Inr c, s2) \<Rightarrow> (Inr (Number env c), log_entry (Info_chainId c) (w1\<lparr>sdk := s2\<rparr>))))"

text \<open>
  \<^verbatim>\<open>getAccounts\<close> and \<^verbatim>\<open>getChainId\<close> begin with \<^verbatim>\<open>await this.getProvider()\<close>: a call of
  either runs \<open>getProvider_start\<close> and is suspended. These are their second parts.
\<close>

definition getAccounts_resume ::
  "('i, 'p, 's) env \<Rightarrow> options \<Rightarrow> ('i, 'p) suspended \<Rightarrow> ('i, 's) world
     \<Rightarrow> (error + address list) \<times> ('i, 's) world"
where
  "getAccounts_resume env opts pending w =
     (case getProvider_resume env opts pending w of
        (Inl e, w1) \<Rightarrow> (Inl e, w1)
      | (Inr None, w1) \<Rightarrow>
          (Inl (TypeError ''Cannot read properties of undefined (reading 'request')''), w1)
      | (Inr (Some p), w1) \<Rightarrow>
          (case request_eth_accounts env p (sdk w1) of
             (Inl e, s2) \<Rightarrow> (Inl e, w1\<lparr>sdk := s2\<rparr>)
           | (Inr raw, s2) \<Rightarrow> (accounts_of_raw (getAddress env) raw, w1\<lparr>sdk := s2\<rparr>)))"

definition getChainId_resume ::
  "('i, 'p, 's) env \<Rightarrow> options \<Rightarrow> ('i, 'p) suspended \<Rightarrow> ('i, 's) world
     \<Rightarrow> (error + number) \<times> ('i, 's) world"
where
  "getChainId_resume env opts pending w =
     (case getProvider_resume env opts pending w of
        (Inl e, w1) \<Rightarrow> (Inl e, w1)
      | (Inr None, w1) \<Rightarrow>
          (Inl (TypeError ''Cannot read properties of undefined (reading 'request')''), w1)
      | (Inr (Some p), w1) \<Rightarrow>
          (case request_eth_chainId env p (sdk w1) of
             (Inl e, s2) \<Rightarrow> (Inl e, w1\<lparr>sdk := s2\<rparr>)
           | (Inr c, s2) \<Rightarrow> (Inr (Number env c), log_entry (Info_chainId c) (w1\<lparr>sdk := s2\<rparr>))))"

text \<open>
  \<^verbatim>\<open>isAuthorized\<close>: the \<^verbatim>\<open>try\<close> block computes a boolean or throws, and the \<^verbatim>\<open>catch\<close> turns
  every exception into \<^verbatim>\<open>false\<close>.
\<close>

definition isAuthorized_try ::
  "('i, 'p, 's) env \<Rightarrow> options \<Rightarrow> ('i, 's) world \<Rightarrow> (error + bool) \<times> ('i, 's) world"
where
  "isAuthorized_try env opts w =
     (case getProvider env opts w of
        (Inl e, w1) \<Rightarrow> (Inl e, w1)
      | (Inr provider, w1) \<Rightarrow>
          (case getAccounts env opts w1 of
             (Inl e, w2) \<Rightarrow> (Inl e, w2)
           | (Inr accounts, w2) \<Rightarrow>
               (Inr (length accounts > 0 \<and> ToBoolean (js_object provider)), w2)))"

definition isAuthorized ::
  "('i, 'p, 's) env \<Rightarrow> options \<Rightarrow> ('i, 's) world \<Rightarrow> (error + bool) \<times> ('i, 's) world"
where
  "isAuthorized env opts w =
     (case isAuthorized_try env opts w of
        (Inl e, w1) \<Rightarrow> (Inr False, w1)
      | (Inr b, w1) \<Rightarrow> (Inr b, w1))"

text \<open>\<^verbatim>\<open>chain.rpcUrls.default.http[0] || ""\<close>\<close>

definition first_rpc_url :: "chain \<Rightarrow> string" where
  "first_rpc_url ch =
     (case rpcUrls_default_http ch of
        [] \<Rightarrow> ''''
      | u # us \<Rightarrow> (if ToBoolean (JString u) then u else ''''))"

text \<open>
  \<^verbatim>\<open>isAuthorized\<close> in two parts. Its first statement is \<^verbatim>\<open>await this.getProvider()\<close>, so a call
  runs \<open>getProvider_start\<close> and is suspended; the rest, with its \<^verbatim>\<open>catch\<close>, runs when the
  call is resumed.
\<close>

definition isAuthorized_start ::
  "('i, 'p, 's) env \<Rightarrow> options \<Rightarrow> ('i, 's) world \<Rightarrow> ('i, 'p) suspended \<times> ('i, 's) world"
where
  "isAuthorized_start env opts w = getProvider_start env opts w"

definition isAuthorized_resume_try ::
  "('i, 'p, 's) env \<Rightarrow> options \<Rightarrow> ('i, 'p) suspended \<Rightarrow> ('i, 's) world
     \<Rightarrow> (error + bool) \<times> ('i, 's) world"
where
  "isAuthorized_resume_try env opts pending w =
     (case getProvider_resume env opts pending w of
        (Inl e, w1) \<Rightarrow> (Inl e, w1)
      | (Inr provider, w1) \<Rightarrow>
          (case getAccounts env opts w1 of
             (Inl e, w2) \<Rightarrow> (Inl e, w2)
           | (Inr accounts, w2) \<Rightarrow>
               (Inr (length accounts > 0 \<and> ToBoolean (js_object provider)), w2)))"

definition isAuthorized_resume ::
  "('i, 'p, 's) env \<Rightarrow> options \<Rightarrow> ('i, 'p) suspended \<Rightarrow> ('i, 's) world
     \<Rightarrow> (error + bool) \<times> ('i, 's) world"
where
  "isAuthorized_resume env opts pending w =
     (case isAuthorized_resume_try env opts pending w of
        (Inl e, w1) \<Rightarrow> (Inr False, w1)
      | (Inr b, w1) \<Rightarrow> (Inr b, w1))"

text \<open>
  The \<^verbatim>\<open>try\<close> block of \<^verbatim>\<open>switchChain\<close>. The call \<^verbatim>\<open>this.isAuthorized()\<close> is not awaited: it
  runs up to its first suspension and returns a promise, which is what the guard tests.
  \<^verbatim>\<open>getTorus\<close> and the call of \<^verbatim>\<open>setProvider\<close> follow in the same run, so \<^verbatim>\<open>setProvider\<close> is
  called in the state that the first part of \<^verbatim>\<open>isAuthorized\<close> leaves: an \<^verbatim>\<open>init\<close> that it
  called is still pending. The rest of \<^verbatim>\<open>isAuthorized\<close> runs once \<^verbatim>\<open>switchChain\<close> is suspended
  at \<^verbatim>\<open>await torusInstance.setProvider(...)\<close>; nothing reads what it settles with.
\<close>

definition switchChain_try ::
  "('i, 'p, 's) env \<Rightarrow> chain list \<Rightarrow> options \<Rightarrow> number \<Rightarrow> ('i, 's) world
     \<Rightarrow> (error + chain) \<times> ('i, 's) world"
where
  "switchChain_try env chainList opts c w =
     (case find (\<lambda>x. strict_eq (chain_id x) c) chainList of
        None \<Rightarrow> (Inl (SwitchChainError (Error ''chain not found on connector.'')), w)
      | Some ch \<Rightarrow>
          (case isAuthorized_start env opts w of
             (pending, w1) \<Rightarrow>
               (case (if \<not> ToBoolean (js_promise (Promise pending))
                      then (Inl (Error ''Please login first''), w1)
                      else (case getTorus w1 of
                              Inl e \<Rightarrow> (Inl e, w1)
                            | Inr torusInstance \<Rightarrow>
                                (case torus_setProvider env torusInstance
                                        \<lparr>sp_host = first_rpc_url ch,
                                         sp_chainId = c,
                                         sp_networkName = chain_name ch\<rparr> (sdk w1) of
                                   (Some e, s2) \<Rightarrow> (Inl e, w1\<lparr>sdk := s2\<rparr>)
                                 | (None, s2) \<Rightarrow> (Inr ch, w1\<lparr>sdk := s2\<rparr>)))) of
                  (r, w2) \<Rightarrow> (r, snd (isAuthorized_resume env opts pending w2)))))"

text \<open>The \<^verbatim>\<open>catch\<close> of \<^verbatim>\<open>switchChain\<close> logs the exception and wraps it.\<close>

definition switchChain ::
  "('i, 'p, 's) env \<Rightarrow> chain list \<Rightarrow> options \<Rightarrow> number \<Rightarrow> ('i, 's) world
     \<Rightarrow> (error + chain) \<times> ('i, 's) world"
where
  "switchChain env chainList opts c w =
     (case switchChain_try env chainList opts c w of
        (Inl e, w1) \<Rightarrow> (Inl (SwitchChainError e), log_entry (Error_cannot_change_chain e) w1)
      | (Inr ch, w1) \<Rightarrow> (Inr ch, w1))"

record connect_params =
  param_chainId :: "number option"

record connect_result =
  res_accounts :: "address list"
  res_chainId :: number

text \<open>
  \<^verbatim>\<open>Promise.all\<close> of two promises: fulfilled with both values when both are; rejected, as
  soon as one of the two rejects, with the error of that one.
\<close>

definition Promise_all2 :: "error + 'a \<Rightarrow> error + 'b \<Rightarrow> bool \<Rightarrow> error + 'a \<times> 'b" where
  "Promise_all2 ra rb first_rejects_first =
     (case ra of
        Inl ea \<Rightarrow>
          (case rb of
             Inl eb \<Rightarrow> Inl (if first_rejects_first then ea else eb)
           | Inr b \<Rightarrow> Inl ea)
      | Inr a \<Rightarrow>
          (case rb of
             Inl eb \<Rightarrow> Inl eb
           | Inr b \<Rightarrow> Inr (a, b)))"

text \<open>
  \<^verbatim>\<open>connect\<close> up to the \<^verbatim>\<open>Promise.all\<close>: provider, login, the two listeners, then accounts
  and chain id. The array \<^verbatim>\<open>[this.getAccounts(), this.getChainId()]\<close> calls both lookups, so
  each runs up to its first suspension, in this order, before either goes on; both are
  then resumed, the first of the array first, whatever the other settles with.
\<close>

definition connect_fetch ::
  "('i, 'p, 's) env \<Rightarrow> options \<Rightarrow> ('i, 's) world
     \<Rightarrow> (error + address list \<times> number) \<times> ('i, 's) world"
where
  "connect_fetch env opts w =
     (case getProvider env opts w of
        (Inl e, w1) \<Rightarrow> (Inl e, w1)
      | (Inr provider, w1) \<Rightarrow>
          (case getTorus w1 of
             Inl e \<Rightarrow> (Inl e, w1)
           | Inr t \<Rightarrow>
               (case (if \<not> torus_isLoggedIn env t (sdk w1)
                      then torus_login env t (sdk w1)
                      else (None, sdk w1)) of
                  (Some e, s2) \<Rightarrow> (Inl e, w1\<lparr>sdk := s2\<rparr>)
                | (None, s2) \<Rightarrow>
                    (case provider of
                       None \<Rightarrow>
                         (Inl (TypeError ''Cannot read properties of undefined (reading 'on')''),
                          w1\<lparr>sdk := s2\<rparr>)
                     | Some p \<Rightarrow>
                         (let s3 = provider_on env p ''accountsChanged'' OnAccountsChanged s2;
                              s4 = provider_on env p ''chainChanged'' OnChainChanged s3
                          in case getProvider_start env opts (w1\<lparr>sdk := s4\<rparr>) of
                               (pa, wa) \<Rightarrow>
                                 (case getProvider_start env opts wa of
                                    (pc, wc) \<Rightarrow>
                                      (case getAccounts_resume env opts pa wc of
                                         (ra, w5) \<Rightarrow>
                                           (case getChainId_resume env opts pc w5 of
                                              (rc, w6) \<Rightarrow>
                                                (Promise_all2 ra rc
                                                   (eth_accounts_rejects_first env (sdk w6)),
                                                 w6)))))))))"

text \<open>\<^verbatim>\<open>typeof this.switchChain === "function"\<close>: the connector object defines the method.\<close>

definition switchChain_is_function :: bool where
  "switchChain_is_function = True"

text \<open>
  Lines 98 to 110 of \<^verbatim>\<open>connect\<close>: the chain id that is reported and whether it is
  unsupported, after the switch to the requested chain where one is attempted.
\<close>

definition connect_resolve ::
  "('i, 'p, 's) env \<Rightarrow> chain list \<Rightarrow> options \<Rightarrow> number option \<Rightarrow> number \<Rightarrow> ('i, 's) world
     \<Rightarrow> (error + number \<times> bool) \<times> ('i, 's) world"
where
  "connect_resolve env chainList opts requested connectedChainId w =
     (if ToBoolean (js_number requested)
         \<and> \<not> strict_eq connectedChainId (the requested)
         \<and> switchChain_is_function
      then (case switchChain env chainList opts (the requested) w of
              (Inl e, w1) \<Rightarrow> (Inl e, w1)
            | (Inr ch, w1) \<Rightarrow> (Inr (chain_id ch, isChainUnsupported chainList (chain_id ch)), w1))
      else (Inr (connectedChainId, isChainUnsupported chainList connectedChainId), w))"

definition connect ::
  "('i, 'p, 's) env \<Rightarrow> chain list \<Rightarrow> options \<Rightarrow> connect_params option \<Rightarrow> ('i, 's) world
     \<Rightarrow> (error + connect_result) \<times> ('i, 's) world"
where
  "connect env chainList opts params w =
     (case connect_fetch env opts w of
        (Inl e, w1) \<Rightarrow> (Inl e, w1)
      | (Inr (accounts, connectedChainId), w1) \<Rightarrow>
          (case connect_resolve env chainList opts (Option.bind params param_chainId)
                  connectedChainId w1 of
             (Inl e, w2) \<Rightarrow> (Inl e, w2)
           | (Inr (id', unsupported), w2) \<Rightarrow>
               (if unsupported
                then (Inl (SwitchChainError (Error ''chain not found on connector.'')), w2)
                else (Inr \<lparr>res_accounts = accounts, res_chainId = id'\<rparr>, w2))))"

definition disconnect ::
  "('i, 'p, 's) env \<Rightarrow> ('i, 's) world \<Rightarrow> error option \<times> ('i, 's) world"
where
  "disconnect env w =
     (case torus w of
        None \<Rightarrow> (None, w)
      | Some t \<Rightarrow> (case torus_logout env t (sdk w) of (r, s1) \<Rightarrow> (r, w\<lparr>sdk := s1\<rparr>)))"

definition onAccountsChanged ::
  "('i, 'p, 's) env \<Rightarrow> string option list \<Rightarrow> ('i, 's) world \<Rightarrow> error option \<times> ('i, 's) world"
where
  "onAccountsChanged env accounts w =
     (case accounts of
        [] \<Rightarrow> (None, emit Disconnect w)
      | a # as \<Rightarrow>
          (if \<not> ToBoolean (js_string a)
           then (None, emit Disconnect w)
           else (case getAddress env (the a) of
                   Inl e \<Rightarrow> (Some e, w)
                 | Inr c \<Rightarrow> (None, emit (Change_accounts [c]) w))))"

definition onChainChanged ::
  "('i, 'p, 's) env \<Rightarrow> chain list \<Rightarrow> string \<Rightarrow> ('i, 's) world \<Rightarrow> error option \<times> ('i, 's) world"
where
  "onChainChanged env chainList c w =
     (let id' = Number env c;
          unsupported = isChainUnsupported chainList id'
      in (None, emit (Change_chainId id') (log_entry (Info_chainChanged id' unsupported) w)))"

definition onConnect ::
  "('i, 'p, 's) env \<Rightarrow> options \<Rightarrow> string \<Rightarrow> ('i, 's) world \<Rightarrow> error option \<times> ('i, 's) world"
where
  "onConnect env opts connectInfo_chainId w =
     (case getAccounts env opts w of
        (Inl e, w1) \<Rightarrow> (Some e, w1)
      | (Inr accounts, w1) \<Rightarrow>
          (None, emit (Connect accounts (Number env connectInfo_chainId)) w1))"

definition onDisconnect :: "('i, 's) world \<Rightarrow> ('i, 's) world" where
  "onDisconnect w = emit Disconnect w"

section \<open>Notions of the specification\<close>


text \<open>
  The \<^verbatim>\<open>setProvider\<close> call of \<^verbatim>\<open>switchChain\<close> for the chain \<open>ch\<close> succeeds: there is an instance
  to call it on, and the call is fulfilled in the state in which \<^verbatim>\<open>switchChain\<close> makes it,
  the one that the first part of the \<^verbatim>\<open>isAuthorized\<close> call leaves.
\<close>

definition setProvider_succeeds ::
  "('i, 'p, 's) env \<Rightarrow> options \<Rightarrow> number \<Rightarrow> chain \<Rightarrow> ('i, 's) world \<Rightarrow> bool"
where
  "setProvider_succeeds env opts c ch w =
     (case torus w of
        None \<Rightarrow> False
      | Some t \<Rightarrow>
          fst (torus_setProvider env t
                 \<lparr>sp_host = first_rpc_url ch, sp_chainId = c, sp_networkName = chain_name ch\<rparr>
                 (sdk (snd (isAuthorized_start env opts w)))) = None)"

text \<open>The \<^verbatim>\<open>try\<close> block of \<^verbatim>\<open>switchChain\<close> without its lines 195 to 197, the guard.\<close>

definition switchChain_try_unguarded ::
  "('i, 'p, 's) env \<Rightarrow> chain list \<Rightarrow> options \<Rightarrow> number \<Rightarrow> ('i, 's) world
     \<Rightarrow> (error + chain) \<times> ('i, 's) world"
where
  "switchChain_try_unguarded env chainList opts c w =
     (case find (\<lambda>x. strict_eq (chain_id x) c) chainList of
        None \<Rightarrow> (Inl (SwitchChainError (Error ''chain not found on connector.'')), w)
      | Some ch \<Rightarrow>
          (case isAuthorized_start env opts w of
             (pending, w1) \<Rightarrow>
               (case (case getTorus w1 of
                        Inl e \<Rightarrow> (Inl e, w1)
                      | Inr torusInstance \<Rightarrow>
                          (case torus_setProvider env torusInstance
                                  \<lparr>sp_host = first_rpc_url ch,
                                   sp_chainId = c,
                                   sp_networkName = chain_name ch\<rparr> (sdk w1) of
                             (Some e, s2) \<Rightarrow> (Inl e, w1\<lparr>sdk := s2\<rparr>)
                           | (None, s2) \<Rightarrow> (Inr ch, w1\<lparr>sdk := s2\<rparr>))) of
                  (r, w2) \<Rightarrow> (r, snd (isAuthorized_resume env opts pending w2)))))"

section \<open>A small SDK to run the connector on\<close>

record demo_sdk =
  demo_initialized :: bool
  demo_loggedIn :: bool
  demo_button :: bool
  demo_listeners :: "(string \<times> handler) list"
  demo_accounts :: "string option list option"
  demo_chain :: string
  demo_rejects_setProvider :: bool

definition demo_Number :: "string \<Rightarrow> number" where
  "demo_Number s =
     (if s = ''0x1'' then Num 1
      else if s = ''0x5'' then Num 5
      else if s = ''0x89'' then Num 137
      else NaN)"

definition demo_getAddress :: "string \<Rightarrow> error + address" where
  "demo_getAddress s =
     (if s = ''0xd8da6bf26964af9d7eed9e03e53415d37aa96045''
      then Inr ''0xd8dA6BF26964aF9D7eEd9e03E53415D37aA96045''
      else Inl (InvalidAddressError s))"

definition demo_env :: "(unit, unit, demo_sdk) env" where
  "demo_env =
     \<lparr>new_Torus = (\<lambda>args s. (Inr (), s)),
      torus_isInitialized = (\<lambda>i s. demo_initialized s),
      torus_isLoggedIn = (\<lambda>i s. demo_loggedIn s),
      torus_provider = (\<lambda>i s. if demo_initialized s then Some () else None),
      torus_init_begin = (\<lambda>i p s. s),
      torus_init_end = (\<lambda>i p s. (None, s\<lparr>demo_initialized := True\<rparr>)),
      torus_login = (\<lambda>i s. (None, s\<lparr>demo_loggedIn := True\<rparr>)),
      torus_logout = (\<lambda>i s. (None, s\<lparr>demo_loggedIn := False\<rparr>)),
      torus_showTorusButton = (\<lambda>i s. (None, s\<lparr>demo_button := True\<rparr>)),
      torus_setProvider =
        (\<lambda>i a s. if \<not> demo_initialized s
                  then (Some (SdkError ''Torus is not initialized''), s)
                  else if demo_rejects_setProvider s
                  then (Some (SdkError ''User rejected the request''), s)
                  else (None, s)),
      request_eth_accounts =
        (\<lambda>p s. (Inr (if demo_loggedIn s then demo_accounts s else Some []), s)),
      request_eth_chainId = (\<lambda>p s. (Inr (demo_chain s), s)),
      provider_on = (\<lambda>p ev h s. s\<lparr>demo_listeners := demo_listeners s @ [(ev, h)]\<rparr>),
      eth_accounts_rejects_first = (\<lambda>s. True),
      Number = demo_Number,
      getAddress = demo_getAddress\<rparr>"

definition mainnet :: chain where
  "mainnet =
     \<lparr>chain_id = Num 1,
      chain_name = ''Ethereum'',
      nativeCurrency = Some \<lparr>currency_name = ''Ether'', currency_symbol = ''ETH''\<rparr>,
      blockExplorers_default_url = Some ''https://etherscan.io'',
      rpcUrls_default_http = [''https://eth.merkle.io'']\<rparr>"

definition goerli :: chain where
  "goerli =
     \<lparr>chain_id = Num 5,
      chain_name = ''Goerli'',
      nativeCurrency = Some \<lparr>currency_name = ''Goerli Ether'', currency_symbol = ''ETH''\<rparr>,
      blockExplorers_default_url = Some ''https://goerli.etherscan.io'',
      rpcUrls_default_http = [''https://rpc.ankr.com/eth_goerli'']\<rparr>"

definition demo_options :: options where
  "demo_options =
     \<lparr>opt_host = ''mainnet'',
      opt_chainId = None,
      opt_buttonPosition = None,
      opt_apiKey = None,
      opt_buttonSize = None,
      TorusParams = None\<rparr>"

definition demo_sdk0 :: demo_sdk where
  "demo_sdk0 =
     \<lparr>demo_initialized = False,
      demo_loggedIn = False,
      demo_button = False,
      demo_listeners = [],
      demo_accounts = Some [Some ''0xd8da6bf26964af9d7eed9e03e53415d37aa96045'', Some '''', None],
      demo_chain = ''0x1'',
      demo_rejects_setProvider = False\<rparr>"

definition demo_world0 :: "(unit, demo_sdk) world" where
  "demo_world0 =
     \<lparr>torus = None, network = None, sdk = demo_sdk0, emitted = [], logged = []\<rparr>"

text \<open>The world after \<^verbatim>\<open>setup()\<close>.\<close>

definition demo_world1 :: "(unit, demo_sdk) world" where
  "demo_world1 = snd (setup_connector demo_env [mainnet, goerli] demo_options demo_world0)"

text \<open>
  The same world with the instance initialized and nobody logged in, with the user
  logged in, and with an SDK that refuses to switch.
\<close>

definition demo_world_initialized :: "(unit, demo_sdk) world" where
  "demo_world_initialized = demo_world1\<lparr>sdk := demo_sdk0\<lparr>demo_initialized := True\<rparr>\<rparr>"

definition demo_world_logged_in :: "(unit, demo_sdk) world" where
  "demo_world_logged_in = demo_world1\<lparr>sdk := demo_sdk0\<lparr>demo_loggedIn := True\<rparr>\<rparr>"

definition demo_world_rejecting :: "(unit, demo_sdk) world" where
  "demo_world_rejecting = demo_world1\<lparr>sdk := demo_sdk0\<lparr>demo_rejects_setProvider := True\<rparr>\<rparr>"

definition demo_account :: address where
  "demo_account = ''0xd8dA6BF26964aF9D7eEd9e03E53415D37aA96045''"

lemmas demo_defs =
  demo_world0_def demo_world1_def demo_world_initialized_def demo_world_logged_in_def
  demo_sdk0_def demo_options_def demo_env_def demo_Number_def demo_getAddress_def
  demo_account_def mainnet_def goerli_def

lemmas connector_defs =
  setup_connector_def getTorus_def torus_init_def getProvider_def showTorusButton_wanted_def
  getProvider_start_def getProvider_resume_def
  getAccounts_def getAccounts_resume_def accounts_of_raw_def getChainId_def getChainId_resume_def
  isAuthorized_def isAuthorized_try_def
  isAuthorized_start_def isAuthorized_resume_def isAuthorized_resume_try_def
  switchChain_def switchChain_try_def first_rpc_url_def connect_def connect_fetch_def
  Promise_all2_def
  connect_resolve_def switchChain_is_function_def disconnect_def onAccountsChanged_def
  onChainChanged_def isChainUnsupported_def strict_eq_def emit_def log_entry_def Let_def

section \<open>Frames and totality\<close>

lemma getProvider_frame:
  "torus (snd (getProvider env opts w)) = torus w \<and>
   network (snd (getProvider env opts w)) = network w \<and>
   emitted (snd (getProvider env opts w)) = emitted w"
  by (simp add: getProvider_def getTorus_def split: option.splits prod.splits sum.splits)

lemma getAccounts_frame:
  "torus (snd (getAccounts env opts w)) = torus w \<and>
   network (snd (getAccounts env opts w)) = network w \<and>
   emitted (snd (getAccounts env opts w)) = emitted w"
  using getProvider_frame [of env opts w]
  by (auto simp add: getAccounts_def split: option.splits prod.splits sum.splits)

lemma isAuthorized_frame:
  "torus (snd (isAuthorized env opts w)) = torus w \<and>
   network (snd (isAuthorized env opts w)) = network w \<and>
   emitted (snd (isAuthorized env opts w)) = emitted w"
  using getProvider_frame [of env opts w]
    getAccounts_frame [of env opts "snd (getProvider env opts w)"]
  by (auto simp add: isAuthorized_def isAuthorized_try_def split: option.splits prod.splits sum.splits)

lemma getProvider_start_frame:
  "torus (snd (getProvider_start env opts w)) = torus w \<and>
   network (snd (getProvider_start env opts w)) = network w \<and>
   emitted (snd (getProvider_start env opts w)) = emitted w \<and>
   logged (snd (getProvider_start env opts w)) = logged w"
  by (simp add: getProvider_start_def getTorus_def Let_def
      split: option.splits prod.splits sum.splits)

lemma getProvider_staged:
  "getProvider env opts w =
     getProvider_resume env opts (fst (getProvider_start env opts w))
       (snd (getProvider_start env opts w))"
  by (simp add: getProvider_def getProvider_start_def getProvider_resume_def torus_init_def
      Let_def split: option.splits prod.splits sum.splits)

lemma getAccounts_staged:
  "getAccounts env opts w =
     getAccounts_resume env opts (fst (getProvider_start env opts w))
       (snd (getProvider_start env opts w))"
  by (simp add: getAccounts_def getAccounts_resume_def getProvider_staged [symmetric])

lemma getChainId_staged:
  "getChainId env opts w =
     getChainId_resume env opts (fst (getProvider_start env opts w))
       (snd (getProvider_start env opts w))"
  by (simp add: getChainId_def getChainId_resume_def getProvider_staged [symmetric])

lemma isAuthorized_staged:
  "isAuthorized env opts w =
     isAuthorized_resume env opts (fst (isAuthorized_start env opts w))
       (snd (isAuthorized_start env opts w))"
  by (simp add: isAuthorized_def isAuthorized_try_def isAuthorized_resume_def
      isAuthorized_resume_try_def isAuthorized_start_def getProvider_staged [symmetric])

lemma isAuthorized_total: "\<exists>b. fst (isAuthorized env opts w) = Inr b"
  by (auto simp add: isAuthorized_def split: prod.splits sum.splits)

lemma getProvider_uninitialized:
  "torus w = None \<Longrightarrow> getProvider env opts w = (Inl (Error ''Torus instance not initialized''), w)"
  by (simp add: getProvider_def getTorus_def)

lemma isAuthorized_start_uninitialized:
  "torus w = None \<Longrightarrow>
     isAuthorized_start env opts w =
       (Returned (Inl (Error ''Torus instance not initialized'')), w)"
  by (simp add: isAuthorized_start_def getProvider_start_def getTorus_def)

lemma isAuthorized_resume_Returned_Inl:
  "isAuthorized_resume env opts (Returned (Inl e)) w = (Inr False, w)"
  by (simp add: isAuthorized_resume_def isAuthorized_resume_try_def getProvider_resume_def)

lemma find_strict_eq:
  "find (\<lambda>x. strict_eq (chain_id x) c) chainList = Some ch
     \<Longrightarrow> ch \<in> set chainList \<and> chain_id ch = c \<and> c \<noteq> NaN"
  by (auto simp add: find_Some_iff strict_eq_def)

lemma find_None_unsupported:
  "(find (\<lambda>x. strict_eq (chain_id x) c) chainList = None) = isChainUnsupported chainList c"
  by (auto simp add: find_None_iff isChainUnsupported_def list_ex_iff)

lemma switchChain_try_cases:
  "fst (switchChain_try env chainList opts c w) =
     (case find (\<lambda>x. strict_eq (chain_id x) c) chainList of
        None \<Rightarrow> Inl (SwitchChainError (Error ''chain not found on connector.''))
      | Some ch \<Rightarrow>
          (case torus w of
             None \<Rightarrow> Inl (Error ''Torus instance not initialized'')
           | Some t \<Rightarrow>
               (case fst (torus_setProvider env t
                            \<lparr>sp_host = first_rpc_url ch, sp_chainId = c,
                             sp_networkName = chain_name ch\<rparr>
                            (sdk (snd (isAuthorized_start env opts w)))) of
                  None \<Rightarrow> Inr ch
                | Some e \<Rightarrow> Inl e)))"
  using getProvider_start_frame [of env opts w]
  by (auto simp add: switchChain_try_def isAuthorized_start_def getTorus_def
      split: option.splits prod.splits sum.splits)

lemma switchChain_fst:
  "fst (switchChain env chainList opts c w) =
     (case fst (switchChain_try env chainList opts c w) of
        Inl e \<Rightarrow> Inl (SwitchChainError e)
      | Inr ch \<Rightarrow> Inr ch)"
  by (auto simp add: switchChain_def split: prod.splits sum.splits)

lemma switchChain_Inr_supported:
  assumes "switchChain env chainList opts c w = (Inr ch, w1)"
  shows "chain_id ch = c \<and> \<not> isChainUnsupported chainList c"
proof -
  have "fst (switchChain env chainList opts c w) = Inr ch"
    using assms by simp
  then have "find (\<lambda>x. strict_eq (chain_id x) c) chainList = Some ch"
    unfolding switchChain_fst switchChain_try_cases
    by (auto split: option.splits sum.splits)
  then show ?thesis
    using find_strict_eq [of c chainList ch] find_None_unsupported [of c chainList] by auto
qed

lemma switchChain_Inl_kind:
  assumes "switchChain env chainList opts c w = (Inl e, w1)"
  shows "\<exists>e'. e = SwitchChainError e'"
  using assms by (auto simp add: switchChain_def split: prod.splits sum.splits)

lemma connect_resolve_flag:
  assumes "connect_resolve env chainList opts requested cid w = (Inr (i, u), w1)"
  shows "u = isChainUnsupported chainList i"
  using assms by (auto simp add: connect_resolve_def split: if_splits prod.splits sum.splits)

lemma connect_resolve_Inl_kind:
  assumes "connect_resolve env chainList opts requested cid w = (Inl e, w1)"
  shows "\<exists>e'. e = SwitchChainError e'"
  using assms switchChain_Inl_kind [of env chainList opts "the requested" w]
  by (auto simp add: connect_resolve_def split: if_splits prod.splits sum.splits)

lemma ToBoolean_js_object: "ToBoolean (js_object x) \<longleftrightarrow> x \<noteq> None"
  by (cases x) simp_all






section \<open>Switching chains\<close>

text \<open>
  C1. For every chain list and target chain id \<open>c\<close>, \<^verbatim>\<open>switchChain({chainId: c})\<close> returns a
  chain descriptor exactly when the list has a chain with id \<open>c\<close> (it returns the first
  such chain) and the SDK's \<^verbatim>\<open>setProvider\<close> call is made and succeeds, in the state in
  which \<^verbatim>\<open>switchChain\<close> makes it. In every other case it fails with a \<open>SwitchChainError\<close> and
  with no other kind of error.
\<close>

theorem switchChain_succeeds_iff:
  "(fst (switchChain env chainList opts c w) = Inr ch
      \<longleftrightarrow> find (\<lambda>x. strict_eq (chain_id x) c) chainList = Some ch
          \<and> setProvider_succeeds env opts c ch w)
   \<and> ((\<exists>x. fst (switchChain env chainList opts c w) = Inr x)
      \<longleftrightarrow> \<not> isChainUnsupported chainList c
          \<and> setProvider_succeeds env opts c
               (the (find (\<lambda>x. strict_eq (chain_id x) c) chainList)) w)
   \<and> ((\<forall>x. fst (switchChain env chainList opts c w) \<noteq> Inr x)
      \<longrightarrow> (\<exists>e. fst (switchChain env chainList opts c w) = Inl (SwitchChainError e)))"
  unfolding switchChain_fst switchChain_try_cases setProvider_succeeds_def
    find_None_unsupported [symmetric]
  by (auto split: option.splits)

text \<open>
  On an initialized instance the switch to chain 5 succeeds. On one that is not, the
  \<^verbatim>\<open>isAuthorized\<close> call has only begun the \<^verbatim>\<open>init\<close> when \<^verbatim>\<open>setProvider\<close> is called, and an SDK
  that needs a finished \<^verbatim>\<open>init\<close> rejects the call.
\<close>

theorem switchChain_succeeds_iff_witness:
  "find (\<lambda>x. strict_eq (chain_id x) (Num 5)) [mainnet, goerli] = Some goerli
   \<and> setProvider_succeeds demo_env demo_options (Num 5) goerli demo_world_initialized
   \<and> fst (switchChain demo_env [mainnet, goerli] demo_options (Num 5) demo_world_initialized)
       = Inr goerli
   \<and> \<not> setProvider_succeeds demo_env demo_options (Num 5) goerli demo_world1
   \<and> fst (switchChain demo_env [mainnet, goerli] demo_options (Num 5) demo_world1)
       = Inl (SwitchChainError (SdkError ''Torus is not initialized''))"
proof -
  have h1: "find (\<lambda>x. strict_eq (chain_id x) (Num 5)) [mainnet, goerli] = Some goerli"
    by (simp add: demo_defs strict_eq_def)
  have h2: "setProvider_succeeds demo_env demo_options (Num 5) goerli demo_world_initialized"
    by (simp add: setProvider_succeeds_def demo_defs connector_defs)
  have h3: "\<not> setProvider_succeeds demo_env demo_options (Num 5) goerli demo_world1"
    by (simp add: setProvider_succeeds_def demo_defs connector_defs)
  have a: "fst (switchChain demo_env [mainnet, goerli] demo_options (Num 5) demo_world_initialized)
             = Inr goerli"
    using h1 h2
      switchChain_succeeds_iff
        [of demo_env "[mainnet, goerli]" demo_options "Num 5" demo_world_initialized goerli]
    by blast
  have b: "fst (switchChain demo_env [mainnet, goerli] demo_options (Num 5) demo_world1)
             = Inl (SwitchChainError (SdkError ''Torus is not initialized''))"
    by (simp add: demo_defs connector_defs)
  from h1 h2 a h3 b show ?thesis by blast
qed

section \<open>The authorization guard of switchChain\<close>

text \<open>
  C2. The guard of \<^verbatim>\<open>switchChain\<close> tests the promise returned by the call of
  \<^verbatim>\<open>isAuthorized\<close> that is not awaited. The promise is truthy while the call is suspended
  and whatever it settles with, so for every input and every login state the branch that
  throws "Please login first" is never taken: the \<^verbatim>\<open>try\<close> block behaves as the same block
  without the guard.
\<close>

theorem switchChain_guard_never_blocks:
  "ToBoolean (js_promise (Promise (fst (isAuthorized_start env opts w))))
   \<and> ToBoolean (js_promise (Promise (fst (isAuthorized env opts w))))
   \<and> switchChain_try env chainList opts c w = switchChain_try_unguarded env chainList opts c w"
  by (simp add: switchChain_try_def switchChain_try_unguarded_def split: option.splits prod.splits)

theorem switchChain_guard_never_blocks_witness:
  "fst (isAuthorized demo_env demo_options demo_world_initialized) = Inr False
   \<and> fst (switchChain_try demo_env [mainnet, goerli] demo_options (Num 5) demo_world_initialized)
       = Inr goerli"
proof -
  have h1: "fst (isAuthorized demo_env demo_options demo_world_initialized) = Inr False"
    by (simp add: demo_defs connector_defs)
  have h2: "fst (switchChain_try_unguarded demo_env [mainnet, goerli] demo_options (Num 5)
                   demo_world_initialized) = Inr goerli"
    by (simp add: switchChain_try_unguarded_def demo_defs connector_defs)
  show ?thesis
    using h1 h2
      switchChain_guard_never_blocks
        [of demo_env demo_options demo_world_initialized "[mainnet, goerli]" "Num 5"]
    by simp
qed

section \<open>Operations before setup\<close>

text \<open>
  C3. When \<^verbatim>\<open>__torus\<close> is undefined, \<^verbatim>\<open>getProvider\<close>, \<^verbatim>\<open>getAccounts\<close>, \<^verbatim>\<open>getChainId\<close> and
  \<^verbatim>\<open>connect\<close> fail with the error "Torus instance not initialized" and leave the connector
  as it was, so no instance is created. The access of \<^verbatim>\<open>switchChain\<close> to the SDK is the call
  of \<^verbatim>\<open>getTorus\<close>, which fails with the same error; the \<^verbatim>\<open>catch\<close> of \<^verbatim>\<open>switchChain\<close> passes it
  on as the cause of its \<open>SwitchChainError\<close>.
\<close>

theorem uninitialized_instance_fails:
  assumes "torus w = None"
  shows "getTorus w = Inl (Error ''Torus instance not initialized'')
    \<and> getProvider env opts w = (Inl (Error ''Torus instance not initialized''), w)
    \<and> getAccounts env opts w = (Inl (Error ''Torus instance not initialized''), w)
    \<and> getChainId env opts w = (Inl (Error ''Torus instance not initialized''), w)
    \<and> connect env chainList opts params w = (Inl (Error ''Torus instance not initialized''), w)
    \<and> (\<not> isChainUnsupported chainList c \<longrightarrow>
         switchChain env chainList opts c w =
           (Inl (SwitchChainError (Error ''Torus instance not initialized'')),
            log_entry (Error_cannot_change_chain (Error ''Torus instance not initialized'')) w))"
proof -
  have gp: "getProvider env opts w = (Inl (Error ''Torus instance not initialized''), w)"
    using assms by (rule getProvider_uninitialized)
  have gt: "getTorus w = Inl (Error ''Torus instance not initialized'')"
    using assms by (simp add: getTorus_def)
  have ga: "getAccounts env opts w = (Inl (Error ''Torus instance not initialized''), w)"
    by (simp add: getAccounts_def gp)
  have gc: "getChainId env opts w = (Inl (Error ''Torus instance not initialized''), w)"
    by (simp add: getChainId_def gp)
  have co: "connect env chainList opts params w = (Inl (Error ''Torus instance not initialized''), w)"
    by (simp add: connect_def connect_fetch_def gp)
  have sw: "switchChain env chainList opts c w =
           (Inl (SwitchChainError (Error ''Torus instance not initialized'')),
            log_entry (Error_cannot_change_chain (Error ''Torus instance not initialized'')) w)"
    if "\<not> isChainUnsupported chainList c"
  proof -
    from that obtain ch where "find (\<lambda>x. strict_eq (chain_id x) c) chainList = Some ch"
      unfolding find_None_unsupported [symmetric] by auto
    then show ?thesis
      using assms
      by (simp add: switchChain_def switchChain_try_def isAuthorized_start_uninitialized
          isAuthorized_resume_Returned_Inl getTorus_def)
  qed
  from gt gp ga gc co sw show ?thesis by blast
qed

theorem uninitialized_instance_fails_witness:
  "torus demo_world0 = None
   \<and> \<not> isChainUnsupported [mainnet, goerli] (Num 5)
   \<and> connect demo_env [mainnet, goerli] demo_options None demo_world0 =
       (Inl (Error ''Torus instance not initialized''), demo_world0)
   \<and> getAccounts demo_env demo_options demo_world0 =
       (Inl (Error ''Torus instance not initialized''), demo_world0)
   \<and> fst (switchChain demo_env [mainnet, goerli] demo_options (Num 5) demo_world0) =
       Inl (SwitchChainError (Error ''Torus instance not initialized''))"
proof -
  have h1: "torus demo_world0 = None"
    by (simp add: demo_defs)
  have h2: "\<not> isChainUnsupported [mainnet, goerli] (Num 5)"
    by (simp add: demo_defs isChainUnsupported_def strict_eq_def)
  show ?thesis
    using h1 h2
      uninitialized_instance_fails [OF h1, of demo_env demo_options "[mainnet, goerli]" None "Num 5"]
    by simp
qed

section \<open>The account list\<close>



section \<open>Connecting on an unsupported chain\<close>

text \<open>
  C5. Let accounts and connected chain id have been retrieved. If the chain id that
  \<^verbatim>\<open>connect\<close> resolves (after the switch, where one is made) is not in the chain list, then
  \<^verbatim>\<open>connect\<close> fails with a \<open>SwitchChainError\<close>. More generally \<^verbatim>\<open>connect\<close> then either returns
  the retrieved accounts with a supported chain id or fails with a \<open>SwitchChainError\<close>.
\<close>

theorem connect_unsupported_chain_fails:
  assumes "connect_fetch env opts w = (Inr (accounts, connectedChainId), w1)"
  shows "(\<forall>i u w2.
            connect_resolve env chainList opts (Option.bind params param_chainId)
               connectedChainId w1 = (Inr (i, u), w2)
            \<and> isChainUnsupported chainList i
          \<longrightarrow> connect env chainList opts params w =
                (Inl (SwitchChainError (Error ''chain not found on connector.'')), w2))
     \<and> ((\<exists>r. fst (connect env chainList opts params w) = Inr r
              \<and> res_accounts r = accounts
              \<and> \<not> isChainUnsupported chainList (res_chainId r))
         \<or> (\<exists>e. fst (connect env chainList opts params w) = Inl (SwitchChainError e)))"
proof -
  let ?res = "connect_resolve env chainList opts (Option.bind params param_chainId)
               connectedChainId w1"
  have a: "connect env chainList opts params w =
             (Inl (SwitchChainError (Error ''chain not found on connector.'')), w2)"
    if "?res = (Inr (i, u), w2)" and "isChainUnsupported chainList i" for i u w2
    using that assms connect_resolve_flag [OF that(1)] by (simp add: connect_def)
  have b: "(\<exists>r. fst (connect env chainList opts params w) = Inr r
              \<and> res_accounts r = accounts
              \<and> \<not> isChainUnsupported chainList (res_chainId r))
         \<or> (\<exists>e. fst (connect env chainList opts params w) = Inl (SwitchChainError e))"
  proof (cases ?res)
    case (Pair r w2)
    show ?thesis
    proof (cases r)
      case (Inl e)
      then show ?thesis
        using Pair assms connect_resolve_Inl_kind [of env chainList opts _ connectedChainId w1 e w2]
        by (auto simp add: connect_def)
    next
      case (Inr iu)
      obtain i u where iu: "iu = (i, u)" by (cases iu)
      have "u = isChainUnsupported chainList i"
        using Pair Inr iu connect_resolve_flag by blast
      then show ?thesis
        using Pair Inr iu assms by (auto simp add: connect_def)
    qed
  qed
  from a b show ?thesis by blast
qed

theorem connect_unsupported_chain_fails_witness:
  "fst (connect_fetch demo_env demo_options demo_world1) = Inr ([demo_account], Num 1)
   \<and> isChainUnsupported [goerli] (Num 1)
   \<and> fst (connect demo_env [goerli] demo_options None demo_world1) =
       Inl (SwitchChainError (Error ''chain not found on connector.''))"
proof -
  let ?w1 = "snd (connect_fetch demo_env demo_options demo_world1)"
  have h1: "connect_fetch demo_env demo_options demo_world1 = (Inr ([demo_account], Num 1), ?w1)"
    by (simp add: demo_defs connector_defs)
  have h2: "connect_resolve demo_env [goerli] demo_options (Option.bind None param_chainId)
              (Num 1) ?w1 = (Inr (Num 1, True), ?w1)"
    by (simp add: connect_resolve_def isChainUnsupported_def strict_eq_def goerli_def)
  have h3: "isChainUnsupported [goerli] (Num 1)"
    by (simp add: isChainUnsupported_def strict_eq_def goerli_def)
  have "connect demo_env [goerli] demo_options None demo_world1 =
          (Inl (SwitchChainError (Error ''chain not found on connector.'')), ?w1)"
    using h2 h3 connect_unsupported_chain_fails [OF h1, of "[goerli]" None]
    by blast
  then have c: "fst (connect demo_env [goerli] demo_options None demo_world1) =
          Inl (SwitchChainError (Error ''chain not found on connector.''))"
    by simp
  have f: "fst (connect_fetch demo_env demo_options demo_world1) = Inr ([demo_account], Num 1)"
    by (simp add: demo_defs connector_defs)
  from f h3 c show ?thesis by blast
qed

section \<open>Connecting with a requested chain\<close>

text \<open>
  C6, as amended. Let accounts and connected chain id have been retrieved, and let the
  caller have requested a truthy chain id \<open>c\<close> that differs from the connected one. Then
  \<^verbatim>\<open>connect\<close> calls \<^verbatim>\<open>switchChain\<close> with \<open>c\<close>. If the switch succeeds, \<^verbatim>\<open>connect\<close> reports \<open>c\<close>
  as the chain id; if the switch fails, \<^verbatim>\<open>connect\<close> fails with the \<open>SwitchChainError\<close> of
  the switch and reports no chain id.
\<close>

theorem connect_reports_switched_chain:
  assumes "connect_fetch env opts w = (Inr (accounts, connectedChainId), w1)"
    and "Option.bind params param_chainId = Some c"
    and "ToBoolean (JNumber c)"
    and "\<not> strict_eq connectedChainId c"
  shows "(\<forall>ch w2. switchChain env chainList opts c w1 = (Inr ch, w2)
            \<longrightarrow> connect env chainList opts params w =
                  (Inr \<lparr>res_accounts = accounts, res_chainId = c\<rparr>, w2))
     \<and> (\<forall>e w2. switchChain env chainList opts c w1 = (Inl e, w2)
            \<longrightarrow> connect env chainList opts params w = (Inl e, w2)
                \<and> (\<exists>e'. e = SwitchChainError e'))"
proof -
  have res: "connect_resolve env chainList opts (Some c) connectedChainId w1 =
      (case switchChain env chainList opts c w1 of
         (Inl e, w2) \<Rightarrow> (Inl e, w2)
       | (Inr ch, w2) \<Rightarrow> (Inr (chain_id ch, isChainUnsupported chainList (chain_id ch)), w2))"
    using assms(3,4) by (simp add: connect_resolve_def switchChain_is_function_def)
  have a: "connect env chainList opts params w =
                  (Inr \<lparr>res_accounts = accounts, res_chainId = c\<rparr>, w2)"
    if "switchChain env chainList opts c w1 = (Inr ch, w2)" for ch w2
    using that assms(1,2) res switchChain_Inr_supported [OF that]
    by (simp add: connect_def)
  have b: "connect env chainList opts params w = (Inl e, w2) \<and> (\<exists>e'. e = SwitchChainError e')"
    if "switchChain env chainList opts c w1 = (Inl e, w2)" for e w2
    using that assms(1,2) res switchChain_Inl_kind [OF that]
    by (simp add: connect_def)
  from a b show ?thesis by blast
qed

theorem connect_reports_switched_chain_witness:
  "fst (connect_fetch demo_env demo_options demo_world1) = Inr ([demo_account], Num 1)
   \<and> fst (switchChain demo_env [mainnet, goerli] demo_options (Num 5)
            (snd (connect_fetch demo_env demo_options demo_world1))) = Inr goerli
   \<and> fst (connect demo_env [mainnet, goerli] demo_options
            (Some \<lparr>param_chainId = Some (Num 5)\<rparr>) demo_world1) =
       Inr \<lparr>res_accounts = [demo_account], res_chainId = Num 5\<rparr>"
proof -
  let ?w1 = "snd (connect_fetch demo_env demo_options demo_world1)"
  let ?w2 = "snd (switchChain demo_env [mainnet, goerli] demo_options (Num 5) ?w1)"
  have h1: "connect_fetch demo_env demo_options demo_world1 = (Inr ([demo_account], Num 1), ?w1)"
    by (simp add: demo_defs connector_defs)
  have h2: "Option.bind (Some \<lparr>param_chainId = Some (Num 5)\<rparr>) param_chainId = Some (Num 5)"
    by simp
  have h3: "ToBoolean (JNumber (Num 5))"
    by simp
  have h4: "\<not> strict_eq (Num 1) (Num 5)"
    by (simp add: strict_eq_def)
  have h5: "switchChain demo_env [mainnet, goerli] demo_options (Num 5) ?w1 = (Inr goerli, ?w2)"
    by (simp add: demo_defs connector_defs)
  have "connect demo_env [mainnet, goerli] demo_options
            (Some \<lparr>param_chainId = Some (Num 5)\<rparr>) demo_world1 =
          (Inr \<lparr>res_accounts = [demo_account], res_chainId = Num 5\<rparr>, ?w2)"
    using h5 connect_reports_switched_chain [OF h1 h2 h3 h4, of "[mainnet, goerli]"]
    by blast
  then have c: "fst (connect demo_env [mainnet, goerli] demo_options
            (Some \<lparr>param_chainId = Some (Num 5)\<rparr>) demo_world1) =
          Inr \<lparr>res_accounts = [demo_account], res_chainId = Num 5\<rparr>"
    by simp
  have f: "fst (connect_fetch demo_env demo_options demo_world1) = Inr ([demo_account], Num 1)"
    by (simp add: demo_defs connector_defs)
  have g: "fst (switchChain demo_env [mainnet, goerli] demo_options (Num 5) ?w1) = Inr goerli"
    by (simp add: demo_defs connector_defs)
  from f g c show ?thesis by blast
qed

text \<open>
  The requested chain 5 differs from the connected chain 1 and the SDK refuses to
  switch: \<^verbatim>\<open>connect\<close> reports no chain id, it fails with the error of the switch.
\<close>

theorem connect_switch_failure_counterexample:
  "Option.bind (Some \<lparr>param_chainId = Some (Num 5)\<rparr>) param_chainId = Some (Num 5)
   \<and> fst (connect_fetch demo_env demo_options demo_world_rejecting) = Inr ([demo_account], Num 1)
   \<and> ToBoolean (JNumber (Num 5))
   \<and> \<not> strict_eq (Num 1) (Num 5)
   \<and> switchChain_is_function
   \<and> fst (connect demo_env [mainnet, goerli] demo_options
             (Some \<lparr>param_chainId = Some (Num 5)\<rparr>) demo_world_rejecting) =
       Inl (SwitchChainError (SdkError ''User rejected the request''))"
  by (simp add: demo_world_rejecting_def demo_defs connector_defs)

section \<open>Authorization query\<close>

text \<open>
  C7. \<^verbatim>\<open>isAuthorized\<close> always returns a boolean. It returns \<^verbatim>\<open>true\<close> exactly when
  \<^verbatim>\<open>getProvider\<close> gave a provider and \<^verbatim>\<open>getAccounts\<close> then gave a non-empty list, and it
  returns \<^verbatim>\<open>false\<close> whenever its \<^verbatim>\<open>try\<close> block throws.
\<close>

theorem isAuthorized_never_throws:
  "(\<exists>b. fst (isAuthorized env opts w) = Inr b)
   \<and> (fst (isAuthorized env opts w) = Inr True
        \<longleftrightarrow> (\<exists>p w1 accounts w2.
               getProvider env opts w = (Inr (Some p), w1)
             \<and> getAccounts env opts w1 = (Inr accounts, w2)
             \<and> accounts \<noteq> []))
   \<and> ((\<exists>e. fst (isAuthorized_try env opts w) = Inl e)
        \<longrightarrow> fst (isAuthorized env opts w) = Inr False)"
  by (auto simp add: isAuthorized_def isAuthorized_try_def ToBoolean_js_object
      split: prod.splits sum.splits)

theorem isAuthorized_never_throws_witness:
  "fst (getAccounts demo_env demo_options
          (snd (getProvider demo_env demo_options demo_world_logged_in))) = Inr [demo_account]
   \<and> fst (isAuthorized demo_env demo_options demo_world_logged_in) = Inr True
   \<and> fst (isAuthorized_try demo_env demo_options demo_world0) =
       Inl (Error ''Torus instance not initialized'')
   \<and> fst (isAuthorized demo_env demo_options demo_world0) = Inr False"
proof -
  let ?w1 = "snd (getProvider demo_env demo_options demo_world_logged_in)"
  let ?w2 = "snd (getAccounts demo_env demo_options ?w1)"
  have h1: "getProvider demo_env demo_options demo_world_logged_in = (Inr (Some ()), ?w1)"
    by (simp add: demo_defs connector_defs)
  have h2: "getAccounts demo_env demo_options ?w1 = (Inr [demo_account], ?w2)"
    by (simp add: demo_defs connector_defs)
  have h3: "fst (isAuthorized_try demo_env demo_options demo_world0) =
              Inl (Error ''Torus instance not initialized'')"
    by (simp add: demo_defs connector_defs)
  have t: "fst (isAuthorized demo_env demo_options demo_world_logged_in) = Inr True"
    using h1 h2 isAuthorized_never_throws [of demo_env demo_options demo_world_logged_in]
    by blast
  have f: "fst (isAuthorized demo_env demo_options demo_world0) = Inr False"
    using h3 isAuthorized_never_throws [of demo_env demo_options demo_world0]
    by blast
  have g: "fst (getAccounts demo_env demo_options ?w1) = Inr [demo_account]"
    by (simp add: demo_defs connector_defs)
  from g t h3 f show ?thesis by blast
qed

section \<open>Account changes\<close>

text \<open>
  C8, as amended. \<^verbatim>\<open>onAccountsChanged\<close> on an empty list, or on a list whose first entry is
  falsy, emits one disconnect event and nothing else. On any other list, if \<^verbatim>\<open>getAddress\<close>
  accepts the first entry, it emits one change event whose accounts are the one-element
  list of the checksum form of that entry, the other entries not being read; if
  \<^verbatim>\<open>getAddress\<close> throws on the first entry, \<^verbatim>\<open>onAccountsChanged\<close> throws that error and emits
  no event.
\<close>

theorem onAccountsChanged_events:
  "(accounts = [] \<or> \<not> ToBoolean (js_string (hd accounts))
      \<longrightarrow> onAccountsChanged env accounts w = (None, w\<lparr>emitted := emitted w @ [Disconnect]\<rparr>))
   \<and> (accounts \<noteq> [] \<and> ToBoolean (js_string (hd accounts))
        \<and> getAddress env (the (hd accounts)) = Inr c
      \<longrightarrow> onAccountsChanged env accounts w =
            (None, w\<lparr>emitted := emitted w @ [Change_accounts [c]]\<rparr>))
   \<and> (accounts \<noteq> [] \<and> ToBoolean (js_string (hd accounts))
        \<and> getAddress env (the (hd accounts)) = Inl e
      \<longrightarrow> onAccountsChanged env accounts w = (Some e, w))"
  by (cases accounts) (auto simp add: onAccountsChanged_def emit_def)

theorem onAccountsChanged_events_witness:
  "onAccountsChanged demo_env [] demo_world1 =
     (None, demo_world1\<lparr>emitted := emitted demo_world1 @ [Disconnect]\<rparr>)
   \<and> onAccountsChanged demo_env [Some ''''] demo_world1 =
     (None, demo_world1\<lparr>emitted := emitted demo_world1 @ [Disconnect]\<rparr>)
   \<and> getAddress demo_env ''0xd8da6bf26964af9d7eed9e03e53415d37aa96045'' = Inr demo_account
   \<and> onAccountsChanged demo_env
       [Some ''0xd8da6bf26964af9d7eed9e03e53415d37aa96045'', Some ''0x00''] demo_world1 =
     (None, demo_world1\<lparr>emitted := emitted demo_world1 @ [Change_accounts [demo_account]]\<rparr>)
   \<and> getAddress demo_env ''0x00'' = Inl (InvalidAddressError ''0x00'')
   \<and> onAccountsChanged demo_env
       [Some ''0x00'', Some ''0xd8da6bf26964af9d7eed9e03e53415d37aa96045''] demo_world1 =
     (Some (InvalidAddressError ''0x00''), demo_world1)"
proof -
  have h: "getAddress demo_env ''0xd8da6bf26964af9d7eed9e03e53415d37aa96045'' = Inr demo_account"
    by (simp add: demo_defs)
  have g: "getAddress demo_env ''0x00'' = Inl (InvalidAddressError ''0x00'')"
    by (simp add: demo_defs)
  show ?thesis
    using h g
      onAccountsChanged_events [of "[]" demo_env demo_world1 demo_account "Error []"]
      onAccountsChanged_events [of "[Some '''']" demo_env demo_world1 demo_account "Error []"]
      onAccountsChanged_events
        [of "[Some ''0xd8da6bf26964af9d7eed9e03e53415d37aa96045'', Some ''0x00'']"
            demo_env demo_world1 demo_account "Error []"]
      onAccountsChanged_events
        [of "[Some ''0x00'', Some ''0xd8da6bf26964af9d7eed9e03e53415d37aa96045'']"
            demo_env demo_world1 demo_account "InvalidAddressError ''0x00''"]
    by simp
qed

text \<open>
  The list holds one entry, which is not an address: \<^verbatim>\<open>getAddress\<close> throws before anything
  is emitted, so there is neither a change event nor a disconnect event.
\<close>

theorem onAccountsChanged_malformed_address_counterexample:
  "[Some ''0x00''] \<noteq> []
   \<and> ToBoolean (js_string (hd [Some ''0x00'']))
   \<and> onAccountsChanged demo_env [Some ''0x00''] demo_world1 =
       (Some (InvalidAddressError ''0x00''), demo_world1)
   \<and> emitted (snd (onAccountsChanged demo_env [Some ''0x00''] demo_world1)) = emitted demo_world1"
  by (simp add: onAccountsChanged_def demo_env_def demo_getAddress_def)

section \<open>Disconnecting\<close>

text \<open>
  C9. \<^verbatim>\<open>disconnect\<close> changes neither \<^verbatim>\<open>__torus\<close> nor \<^verbatim>\<open>network\<close>: an existing instance is
  logged out, which acts on the SDK only, and without an instance nothing happens.
\<close>

theorem disconnect_keeps_instance_and_network:
  "torus (snd (disconnect env w)) = torus w
   \<and> network (snd (disconnect env w)) = network w
   \<and> (\<forall>t. torus w = Some t \<longrightarrow>
         disconnect env w =
           (fst (torus_logout env t (sdk w)), w\<lparr>sdk := snd (torus_logout env t (sdk w))\<rparr>))
   \<and> (torus w = None \<longrightarrow> disconnect env w = (None, w))"
  by (auto simp add: disconnect_def split: option.splits prod.splits)

theorem disconnect_keeps_instance_and_network_witness:
  "torus demo_world_logged_in = Some ()
   \<and> torus (snd (disconnect demo_env demo_world_logged_in)) = Some ()
   \<and> network (snd (disconnect demo_env demo_world_logged_in)) = network demo_world_logged_in
   \<and> demo_loggedIn (sdk demo_world_logged_in)
   \<and> \<not> demo_loggedIn (sdk (snd (disconnect demo_env demo_world_logged_in)))"
proof -
  have h: "torus demo_world_logged_in = Some ()"
    by (simp add: demo_defs connector_defs)
  show ?thesis
    using h disconnect_keeps_instance_and_network [of demo_env demo_world_logged_in]
    by (simp add: demo_defs connector_defs)
qed

section \<open>Chain changes\<close>

text \<open>
  C10. For every string \<open>s\<close>, \<^verbatim>\<open>onChainChanged(s)\<close> emits one change event with chain id
  \<^verbatim>\<open>Number(s)\<close> and does not throw, whether or not that id is in the chain list; the
  result of \<open>isChainUnsupported\<close> goes to the log only.
\<close>

theorem onChainChanged_emits_change:
  "onChainChanged env chainList s w =
     (None,
      w\<lparr>emitted := emitted w @ [Change_chainId (Number env s)],
        logged := logged w @
          [Info_chainChanged (Number env s) (isChainUnsupported chainList (Number env s))]\<rparr>)"
  by (simp add: onChainChanged_def emit_def log_entry_def Let_def)

theorem onChainChanged_emits_change_witness:
  "Number demo_env ''0x89'' = Num 137
   \<and> isChainUnsupported [mainnet, goerli] (Num 137)
   \<and> fst (onChainChanged demo_env [mainnet, goerli] ''0x89'' demo_world1) = None
   \<and> emitted (snd (onChainChanged demo_env [mainnet, goerli] ''0x89'' demo_world1)) =
       emitted demo_world1 @ [Change_chainId (Num 137)]"
proof -
  have h1: "Number demo_env ''0x89'' = Num 137"
    by (simp add: demo_defs)
  have h2: "isChainUnsupported [mainnet, goerli] (Num 137)"
    by (simp add: isChainUnsupported_def strict_eq_def demo_defs)
  show ?thesis
    using h1 h2 onChainChanged_emits_change [of demo_env "[mainnet, goerli]" "''0x89''" demo_world1]
    by simp
qed

end
